theory Spec2Isabelle
  imports Complex_Main
begin

section \<open>Python values shared by both provider adapters\<close>

text \<open>
  Exceptions are values. \<open>ValueError\<close> carries its message; \<open>UpstreamError\<close> stands for
  whatever an external client library raises (network, authentication, protocol).
\<close>

datatype py_error =
    ImportError
  | ValueError string
  | AttributeError
  | KeyError string
  | IndexError
  | NameError string
  | TypeError
  | UpstreamError string

text \<open>
  A chat message is a Python \<open>dict\<close> from field names to text; it is kept as an
  association list and read with \<open>map_of\<close>.
\<close>

type_synonym message = "(string \<times> string) list"

text \<open>Truthiness of an \<open>Optional[str]\<close>: \<open>None\<close> and the empty string are falsy.\<close>

fun truthy :: "string option \<Rightarrow> bool" where
  "truthy None = False"
| "truthy (Some s) = (s \<noteq> [])"

text \<open>\<open>s.startswith(p)\<close>.\<close>

definition startswith :: "string \<Rightarrow> string \<Rightarrow> bool" where
  "startswith s p = (take (length p) s = p)"

text \<open>
  \<open>s.replace(old, new)\<close> for a non-empty \<open>old\<close>: the string is scanned from the left,
  every non-overlapping occurrence of \<open>old\<close> is replaced. (For an empty \<open>old\<close> Python
  inserts \<open>new\<close> around every character; the adapters never call it so, and the model
  returns the string unchanged there.)
\<close>

function str_replace :: "string \<Rightarrow> string \<Rightarrow> string \<Rightarrow> string" where
  "str_replace [] old new = []"
| "str_replace (c # cs) old new =
     (if old \<noteq> [] \<and> startswith (c # cs) old
      then new @ str_replace (drop (length old) (c # cs)) old new
      else c # str_replace cs old new)"
  by pat_completeness auto
termination
  by (relation "measure (\<lambda>(s, old, new). length s)") auto

text \<open>\<open>sep.join(xs)\<close>.\<close>

fun join :: "string \<Rightarrow> string list \<Rightarrow> string" where
  "join sep [] = []"
| "join sep [x] = x"
| "join sep (x # y # ys) = x @ sep @ join sep (y # ys)"

section \<open>The configuration object\<close>

text \<open>
  The fields of \<open>LLMConfig\<close> that the adapters read. Sampling parameters are Python
  floats; they are compared with the literals \<open>1.0\<close> and \<open>0.0\<close> only, and are modelled
  by the real number they denote.
\<close>

record LLMConfig =
  model :: "string option"
  pricing_plan :: "string option"
  proxy :: "string option"
  max_token :: int
  temperature :: real
  top_p :: real
  frequency_penalty :: real
  presence_penalty :: real
  stop :: "string option"
  calc_usage :: bool
  timeout :: int

section \<open>The completion adapter: construction\<close>

text \<open>The module-level settings of the completion library that construction writes.\<close>

record litellm_module =
  set_verbose :: bool
  litellm_proxy :: "string option"

text \<open>A usage record: prompt, completion and total token counts.\<close>

record usage =
  prompt_tokens :: int
  completion_tokens :: int
  total_tokens :: int

datatype log_level = Error | Warning

text \<open>
  The adapter object (\<open>self.config\<close>, \<open>self.model\<close>, \<open>self.pricing_plan\<close>,
  \<open>self.cost_manager\<close>) together with everything its methods write outside of it: the
  library's module settings, the live-output sink of \<open>log_llm_stream\<close>, the logger, and
  the usage records handed to \<open>_update_costs\<close>.
\<close>

record GitHubCopilotLLM =
  self_config :: LLMConfig
  self_model :: string
  self_pricing_plan :: string
  self_cost_manager :: "unit option"
  litellm :: litellm_module
  stream_log :: "string list"
  logger_log :: "(log_level \<times> string \<times> py_error) list"
  cost_updates :: "usage list"

definition supported_models :: "string list" where
  "supported_models = [''gpt-4o'', ''gpt-4.1'', ''gpt-5-mini'', ''gpt-5'']"

definition provider_prefix :: string where
  "provider_prefix = ''github_copilot/''"

definition unsupported_model :: "string \<Rightarrow> py_error" where
  "unsupported_model m =
     ValueError (''Unsupported GitHub Copilot model: '' @ m @ ''. '' @
                 ''Supported models: '' @ join '', '' supported_models)"

text \<open>
  Lines 55 to 75 of \<open>_init_client\<close>: the three-way branch on \<open>self.config.model\<close>. It
  returns the configuration as the branch leaves it, and the string then stored in
  \<open>self.model\<close>.
\<close>

definition resolve_model :: "LLMConfig \<Rightarrow> py_error + (LLMConfig \<times> string)" where
  "resolve_model cfg =
     (case model cfg of
        None \<Rightarrow> Inr (cfg\<lparr>model := Some ''github_copilot/gpt-4o''\<rparr>, ''github_copilot/gpt-4o'')
      | Some m \<Rightarrow>
          if m = [] then
            Inr (cfg\<lparr>model := Some ''github_copilot/gpt-4o''\<rparr>, ''github_copilot/gpt-4o'')
          else if \<not> startswith m provider_prefix then
            (if m \<notin> set supported_models then Inl (unsupported_model m)
             else Inr (cfg\<lparr>model := Some (provider_prefix @ m)\<rparr>, provider_prefix @ m))
          else
            (let base_model = str_replace m provider_prefix [] in
             if base_model \<notin> set supported_models then Inl (unsupported_model base_model)
             else Inr (cfg, m)))"

text \<open>
  \<open>_init_client\<close>: resolves the model, then sets \<open>self.model\<close>, \<open>self.pricing_plan\<close>
  and the library's module settings. \<open>__init__\<close> has stored the configuration and sets
  \<open>self.cost_manager = None\<close> afterwards; it raises \<open>ImportError\<close> first when the
  library could not be imported.
\<close>

definition init_client :: "litellm_module \<Rightarrow> LLMConfig \<Rightarrow> py_error + GitHubCopilotLLM" where
  "init_client lib cfg =
     (case resolve_model cfg of
        Inl e \<Rightarrow> Inl e
      | Inr (cfg', m) \<Rightarrow>
          Inr \<lparr> self_config = cfg',
                self_model = m,
                self_pricing_plan =
                  (case pricing_plan cfg' of
                     None \<Rightarrow> m
                   | Some p \<Rightarrow> if p \<noteq> [] then p else m),
                self_cost_manager = None,
                litellm = (let lib' = lib\<lparr>set_verbose := False\<rparr> in
                           if truthy (proxy cfg') then lib'\<lparr>litellm_proxy := proxy cfg'\<rparr> else lib'),
                stream_log = [],
                logger_log = [],
                cost_updates = [] \<rparr>)"

definition GitHubCopilotLLM_init ::
  "bool \<Rightarrow> litellm_module \<Rightarrow> LLMConfig \<Rightarrow> py_error + GitHubCopilotLLM" where
  "GitHubCopilotLLM_init LITELLM_AVAILABLE lib cfg =
     (if \<not> LITELLM_AVAILABLE then Inl ImportError else init_client lib cfg)"

section \<open>The completion adapter: collaborators that are not part of the adapter\<close>

text \<open>
  Values of a keyword-argument payload, and the payload itself: a \<open>dict\<close> from
  argument names to values.
\<close>

datatype pyval =
    PStr string
  | PInt int
  | PFloat real
  | PBool bool
  | PMessages "message list"
  | PHeaders "(string \<times> string) list"

type_synonym kwargs = "string \<rightharpoonup> pyval"

text \<open>
  What the completion library returns. A stream chunk has an optional \<open>choices\<close>
  attribute (absent is \<open>None\<close>), each choice an optional \<open>delta\<close> attribute whose
  \<open>content\<close> may be \<open>None\<close>, and an optional \<open>usage\<close> (absent, \<open>None\<close> and any other
  falsy value are \<open>None\<close>). A stream is the chunks it yields and the exception, if any,
  that ends the iteration.
\<close>

record Delta =
  content :: "string option"

record StreamingChoice =
  delta :: "Delta option"

record Chunk =
  choices :: "StreamingChoice list option"
  chunk_usage :: "usage option"

record Choice =
  message_content :: "string option"

record ModelResponse =
  response_choices :: "Choice list option"
  response_usage :: usage

datatype litellm_result =
    Response ModelResponse
  | Stream "Chunk list" "py_error option"

text \<open>
  The names the adapter imports and calls without defining them: the table
  \<open>TOKEN_MAX\<close> and the two token counters of \<open>metagpt.utils.token_counter\<close>, the
  method \<open>get_timeout\<close> inherited from \<open>BaseLLM\<close>, and \<open>litellm.acompletion\<close>. They are
  parameters of the model.
\<close>

record collaborators =
  TOKEN_MAX :: "string \<rightharpoonup> int"
  get_timeout :: "LLMConfig \<Rightarrow> int \<Rightarrow> int"
  count_message_tokens :: "message list \<Rightarrow> string \<Rightarrow> py_error + int"
  count_output_tokens :: "string \<Rightarrow> string \<Rightarrow> py_error + int"
  litellm_acompletion :: "kwargs \<Rightarrow> py_error + litellm_result"

section \<open>The completion adapter: methods\<close>

definition get_max_tokens :: "collaborators \<Rightarrow> GitHubCopilotLLM \<Rightarrow> message list \<Rightarrow> int" where
  "get_max_tokens env self messages =
     (case TOKEN_MAX env (self_model self) of
        Some model_max_tokens \<Rightarrow> model_max_tokens
      | None \<Rightarrow> max_token (self_config self))"

definition extra_headers :: "(string \<times> string) list" where
  "extra_headers =
     [(''Editor-Version'', ''vscode/1.85.0''), (''Copilot-Integration-Id'', ''vscode-chat'')]"

definition cons_kwargs ::
  "collaborators \<Rightarrow> GitHubCopilotLLM \<Rightarrow> message list \<Rightarrow> int \<Rightarrow> kwargs \<Rightarrow> kwargs" where
  "cons_kwargs env self messages tmo extra_kwargs =
     (let cfg = self_config self;
          kw0 = [''model'' \<mapsto> PStr (self_model self),
                 ''messages'' \<mapsto> PMessages messages,
                 ''max_tokens'' \<mapsto> PInt (get_max_tokens env self messages),
                 ''temperature'' \<mapsto> PFloat (temperature cfg),
                 ''timeout'' \<mapsto> PInt (get_timeout env cfg tmo)];
          kw1 = kw0(''extra_headers'' \<mapsto> PHeaders extra_headers);
          kw2 = (if top_p cfg \<noteq> 1 then kw1(''top_p'' \<mapsto> PFloat (top_p cfg)) else kw1);
          kw3 = (if frequency_penalty cfg \<noteq> 0
                 then kw2(''frequency_penalty'' \<mapsto> PFloat (frequency_penalty cfg)) else kw2);
          kw4 = (if presence_penalty cfg \<noteq> 0
                 then kw3(''presence_penalty'' \<mapsto> PFloat (presence_penalty cfg)) else kw3);
          kw5 = (case stop cfg of
                   None \<Rightarrow> kw4
                 | Some s \<Rightarrow> if s \<noteq> [] then kw4(''stop'' \<mapsto> PStr s) else kw4)
      in if extra_kwargs \<noteq> Map.empty then kw5 ++ extra_kwargs else kw5)"

definition normalize_model_name :: "string \<Rightarrow> string" where
  "normalize_model_name model_name =
     (if startswith model_name ''github_copilot/''
      then drop (length ''github_copilot/'') model_name
      else model_name)"

definition zero_usage :: usage where
  "zero_usage = \<lparr>prompt_tokens = 0, completion_tokens = 0, total_tokens = 0\<rparr>"

definition log_event ::
  "log_level \<Rightarrow> string \<Rightarrow> py_error \<Rightarrow> GitHubCopilotLLM \<Rightarrow> GitHubCopilotLLM" where
  "log_event lvl msg e self = self\<lparr>logger_log := logger_log self @ [(lvl, msg, e)]\<rparr>"

text \<open>
  \<open>_calc_usage\<close> (primed, since \<open>calc_usage\<close> is the configuration's flag): the zero record when usage calculation is switched off; otherwise
  the two counts and their sum, and the zero record with a warning when a counter
  raises.
\<close>

definition calc_usage' ::
  "collaborators \<Rightarrow> GitHubCopilotLLM \<Rightarrow> message list \<Rightarrow> string \<Rightarrow> usage \<times> GitHubCopilotLLM" where
  "calc_usage' env self messages response =
     (if \<not> calc_usage (self_config self) then (zero_usage, self)
      else
        let normalized_model = normalize_model_name (self_pricing_plan self) in
        case count_message_tokens env messages normalized_model of
          Inl e \<Rightarrow> (zero_usage, log_event Warning ''Usage calculation failed'' e self)
        | Inr p \<Rightarrow>
            (case count_output_tokens env response normalized_model of
               Inl e \<Rightarrow> (zero_usage, log_event Warning ''Usage calculation failed'' e self)
             | Inr c \<Rightarrow>
                 (\<lparr>prompt_tokens = p, completion_tokens = c, total_tokens = p + c\<rparr>, self)))"

text \<open>
  Modelled from the spec: \<open>_update_costs\<close> is inherited from \<open>BaseLLM\<close>, which is not
  among the sources. The spec says that the adapter "forwards usage to the cost
  manager" and that a usage record is "fed once into the cost manager and then
  discarded"; the model records every usage handed over, in order.
\<close>

definition update_costs :: "GitHubCopilotLLM \<Rightarrow> usage \<Rightarrow> GitHubCopilotLLM" where
  "update_costs self u = self\<lparr>cost_updates := cost_updates self @ [u]\<rparr>"

text \<open>The one-character string, a line feed, that ends the live output.\<close>

definition newline :: string where
  "newline = [CHR 0x0A]"

text \<open>
  The body of \<open>async for chunk in response\<close>, over the chunks the stream yields:
  \<open>collected\<close> is \<open>collected_messages\<close>, \<open>u\<close> the variable \<open>usage\<close>, \<open>sink\<close> what
  \<open>log_llm_stream\<close> has received. A chunk without choices is skipped as a whole.
\<close>

fun stream_loop ::
  "Chunk list \<Rightarrow> string list \<Rightarrow> usage option \<Rightarrow> string list
     \<Rightarrow> string list \<times> usage option \<times> string list" where
  "stream_loop [] collected u sink = (collected, u, sink)"
| "stream_loop (chunk # rest) collected u sink =
     (case choices chunk of
        Some (choice # _) \<Rightarrow>
          (let (collected', sink') =
                 (case delta choice of
                    Some d \<Rightarrow>
                      (case content d of
                         Some c \<Rightarrow>
                           if c \<noteq> [] then (collected @ [c], sink @ [c]) else (collected, sink)
                       | None \<Rightarrow> (collected, sink))
                  | None \<Rightarrow> (collected, sink));
               u' = (case chunk_usage chunk of Some cu \<Rightarrow> Some cu | None \<Rightarrow> u)
           in stream_loop rest collected' u' sink')
      | _ \<Rightarrow> stream_loop rest collected u sink)"

text \<open>
  \<open>_achat_completion_stream\<close>. Every exception inside the \<open>try\<close> is logged and
  raised again. Iterating over something that is not a stream raises \<open>TypeError\<close>.
\<close>

definition achat_completion_stream ::
  "collaborators \<Rightarrow> GitHubCopilotLLM \<Rightarrow> message list \<Rightarrow> int
     \<Rightarrow> (py_error + string) \<times> GitHubCopilotLLM" where
  "achat_completion_stream env self messages tmo =
     (let kw = cons_kwargs env self messages (get_timeout env (self_config self) tmo)
                 [''stream'' \<mapsto> PBool True]
      in case litellm_acompletion env kw of
           Inl e \<Rightarrow> (Inl e, log_event Error ''GitHub Copilot streaming error'' e self)
         | Inr (Response r) \<Rightarrow>
             (Inl TypeError, log_event Error ''GitHub Copilot streaming error'' TypeError self)
         | Inr (Stream chunks failure) \<Rightarrow>
             (let (collected_messages, u, sink) = stream_loop chunks [] None (stream_log self);
                  self1 = self\<lparr>stream_log := sink\<rparr>
              in case failure of
                   Some e \<Rightarrow> (Inl e, log_event Error ''GitHub Copilot streaming error'' e self1)
                 | None \<Rightarrow>
                     (let self2 = self1\<lparr>stream_log := stream_log self1 @ [newline]\<rparr>;
                          full_content = concat collected_messages;
                          (u', self3) = (case u of
                                           None \<Rightarrow> calc_usage' env self2 messages full_content
                                         | Some cu \<Rightarrow> (cu, self2))
                      in (Inr full_content, update_costs self3 u'))))"

text \<open>
  \<open>_achat_completion\<close>, \<open>acompletion\<close>, \<open>get_choice_text\<close> and \<open>acompletion_text\<close>.
  Reading \<open>.usage\<close> of something that is not a response raises \<open>AttributeError\<close>.
\<close>

definition achat_completion ::
  "collaborators \<Rightarrow> GitHubCopilotLLM \<Rightarrow> message list \<Rightarrow> int
     \<Rightarrow> (py_error + ModelResponse) \<times> GitHubCopilotLLM" where
  "achat_completion env self messages tmo =
     (let kw = cons_kwargs env self messages (get_timeout env (self_config self) tmo) Map.empty
      in case litellm_acompletion env kw of
           Inl e \<Rightarrow> (Inl e, log_event Error ''GitHub Copilot API error'' e self)
         | Inr (Stream chunks failure) \<Rightarrow>
             (Inl AttributeError, log_event Error ''GitHub Copilot API error'' AttributeError self)
         | Inr (Response r) \<Rightarrow> (Inr r, update_costs self (response_usage r)))"

definition acompletion ::
  "collaborators \<Rightarrow> GitHubCopilotLLM \<Rightarrow> message list \<Rightarrow> int
     \<Rightarrow> (py_error + ModelResponse) \<times> GitHubCopilotLLM" where
  "acompletion env self messages tmo =
     achat_completion env self messages (get_timeout env (self_config self) tmo)"

definition get_choice_text :: "ModelResponse \<Rightarrow> string" where
  "get_choice_text response =
     (case response_choices response of
        Some (c # _) \<Rightarrow> (case message_content c of Some s \<Rightarrow> s | None \<Rightarrow> [])
      | _ \<Rightarrow> [])"

definition acompletion_text ::
  "collaborators \<Rightarrow> GitHubCopilotLLM \<Rightarrow> message list \<Rightarrow> bool \<Rightarrow> int
     \<Rightarrow> (py_error + string) \<times> GitHubCopilotLLM" where
  "acompletion_text env self messages stream tmo =
     (if stream then achat_completion_stream env self messages tmo
      else case achat_completion env self messages (get_timeout env (self_config self) tmo) of
             (Inl e, self') \<Rightarrow> (Inl e, self')
           | (Inr response, self') \<Rightarrow> (Inr (get_choice_text response), self'))"

section \<open>The search-assistant adapter\<close>

text \<open>
  The external client \<open>SydneyClient\<close>: opening the scoped session (given the value of
  the environment variable \<open>BING_COOKIES\<close>) may fail; \<open>ask\<close> returns the pair of text
  and metadata or raises; \<open>ask_stream\<close> yields tokens and may end with an exception.
  The calls the adapter makes on the client are recorded in order.
\<close>

record sydney_client =
  aenter :: "string option \<Rightarrow> py_error option"
  ask :: "string \<Rightarrow> py_error + (string \<times> string)"
  ask_stream :: "string \<Rightarrow> string list \<times> py_error option"

datatype sydney_event =
    Enter "string option"
  | Ask string
  | AskStream string
  | Exit

text \<open>\<open>messages[-1]["content"]\<close>: \<open>IndexError\<close> on the empty list, \<open>KeyError\<close> on a
  message without that key.\<close>

definition last_content :: "message list \<Rightarrow> py_error + string" where
  "last_content messages =
     (if messages = [] then Inl IndexError
      else case map_of (last messages) ''content'' of
             None \<Rightarrow> Inl (KeyError ''content'')
           | Some c \<Rightarrow> Inr c)"

definition GitHubLLM_achat_completion_stream ::
  "sydney_client \<Rightarrow> string option \<Rightarrow> message list \<Rightarrow> int
     \<Rightarrow> (py_error + string) \<times> sydney_event list" where
  "GitHubLLM_achat_completion_stream sydney cookies messages tmo =
     (case aenter sydney cookies of
        Some e \<Rightarrow> (Inl e, [Enter cookies])
      | None \<Rightarrow>
          (case last_content messages of
             Inl e \<Rightarrow> (Inl e, [Enter cookies, Exit])
           | Inr prompt \<Rightarrow>
               (case ask_stream sydney prompt of
                  (tokens, Some e) \<Rightarrow> (Inl e, [Enter cookies, AskStream prompt, Exit])
                | (tokens, None) \<Rightarrow>
                    (Inr (foldl (\<lambda>response token. response @ token) [] tokens),
                     [Enter cookies, AskStream prompt, Exit]))))"

definition GitHubLLM_acompletion_text ::
  "sydney_client \<Rightarrow> string option \<Rightarrow> message list \<Rightarrow> bool \<Rightarrow> int
     \<Rightarrow> (py_error + string) \<times> sydney_event list" where
  "GitHubLLM_acompletion_text sydney cookies messages stream tmo =
     (if stream then GitHubLLM_achat_completion_stream sydney cookies messages tmo
      else case aenter sydney cookies of
             Some e \<Rightarrow> (Inl e, [Enter cookies])
           | None \<Rightarrow>
               (case last_content messages of
                  Inl e \<Rightarrow> (Inl e, [Enter cookies, Exit])
                | Inr prompt \<Rightarrow>
                    (case ask sydney prompt of
                       Inl e \<Rightarrow> (Inl e, [Enter cookies, Ask prompt, Exit])
                     | Inr (response, _) \<Rightarrow> (Inr response, [Enter cookies, Ask prompt, Exit]))))"

text \<open>
  The adapter object of the search-assistant adapter, with the log its module's
  logger would receive. The cost manager is a collaborator: its state is a type
  parameter, and \<open>update_cost\<close> is passed to the method.
\<close>

record 'cm GitHubLLM =
  gh_config :: LLMConfig
  gh_cost_manager :: "'cm option"
  gh_logger_log :: "(log_level \<times> string \<times> py_error) list"

definition GitHubLLM_init :: "LLMConfig \<Rightarrow> 'cm GitHubLLM" where
  "GitHubLLM_init cfg = \<lparr>gh_config = cfg, gh_cost_manager = None, gh_logger_log = []\<rparr>"

text \<open>
  The names bound at module level in \<open>github_api.py\<close>: its imports and the class it
  defines. A name that is neither bound here nor a builtin raises \<open>NameError\<close> when
  it is evaluated.
\<close>

definition github_api_globals :: "string list" where
  "github_api_globals =
     [''annotations'', ''os'', ''asyncio'', ''Optional'', ''SydneyClient'', ''LLMConfig'',
      ''LLMType'', ''BaseLLM'', ''register_provider'', ''CostManager'', ''GitHubLLM'']"

definition github_api_name :: "string \<Rightarrow> py_error + unit" where
  "github_api_name n = (if n \<in> set github_api_globals then Inr () else Inl (NameError n))"

text \<open>
  \<open>GitHubLLM._update_costs\<close>. Inside the \<open>try\<close>: the attribute \<open>update_cost\<close> of
  \<open>self.cost_manager\<close> is looked up first (\<open>AttributeError\<close> on \<open>None\<close>), then the two
  keys of the usage dict are read, then the call is made. The handler evaluates the
  name \<open>logger\<close>.
\<close>

definition GitHubLLM_update_costs ::
  "('cm \<Rightarrow> int \<Rightarrow> int \<Rightarrow> string option \<Rightarrow> py_error + 'cm)
     \<Rightarrow> 'cm GitHubLLM \<Rightarrow> (string \<times> int) list \<Rightarrow> py_error + 'cm GitHubLLM" where
  "GitHubLLM_update_costs update_cost self u =
     (if calc_usage (gh_config self) then
        (case (case gh_cost_manager self of
                 None \<Rightarrow> Inl AttributeError
               | Some cm \<Rightarrow>
                   (case map_of u ''prompt_tokens'' of
                      None \<Rightarrow> Inl (KeyError ''prompt_tokens'')
                    | Some p \<Rightarrow>
                        (case map_of u ''completion_tokens'' of
                           None \<Rightarrow> Inl (KeyError ''completion_tokens'')
                         | Some c \<Rightarrow> update_cost cm p c (model (gh_config self))))) of
           Inr cm' \<Rightarrow> Inr (self\<lparr>gh_cost_manager := Some cm'\<rparr>)
         | Inl e \<Rightarrow>
             (case github_api_name ''logger'' of
                Inl name_error \<Rightarrow> Inl name_error
              | Inr _ \<Rightarrow>
                  Inr (self\<lparr>gh_logger_log :=
                              gh_logger_log self @ [(Error, ''Error updating costs'', e)]\<rparr>)))
      else Inr self)"

section \<open>What the specification calls the fragments and the usage of a stream\<close>

text \<open>
  The incremental content fragment a chunk carries, if any: the content of the delta
  of its first choice, when that is a non-empty string.
\<close>

definition spec_fragment :: "Chunk \<Rightarrow> string option" where
  "spec_fragment chunk =
     (case choices chunk of
        Some (choice # _) \<Rightarrow>
          (case delta choice of
             Some d \<Rightarrow> (case content d of Some c \<Rightarrow> if c \<noteq> [] then Some c else None | None \<Rightarrow> None)
           | None \<Rightarrow> None)
      | _ \<Rightarrow> None)"

definition spec_fragments :: "Chunk list \<Rightarrow> string list" where
  "spec_fragments chunks = List.map_filter spec_fragment chunks"

text \<open>A chunk has choices when its \<open>choices\<close> attribute is a non-empty list.\<close>

definition has_choices :: "Chunk \<Rightarrow> bool" where
  "has_choices chunk = (case choices chunk of Some (_ # _) \<Rightarrow> True | _ \<Rightarrow> False)"

text \<open>The usage records carried by the chunks that have choices, in stream order.\<close>

definition spec_usages :: "Chunk list \<Rightarrow> usage list" where
  "spec_usages chunks =
     List.map_filter (\<lambda>chunk. if has_choices chunk then chunk_usage chunk else None) chunks"

section \<open>Concrete inputs\<close>

text \<open>
  The configuration of \<open>examples/github_copilot_example.py\<close> (model \<open>gpt-4o\<close>,
  temperature 0, usage calculation on, timeout 600), the other fields neutral.
\<close>

definition example_config :: LLMConfig where
  "example_config =
     \<lparr> model = Some ''gpt-4o'', pricing_plan = None, proxy = None, max_token = 4096,
       temperature = 0, top_p = 1, frequency_penalty = 0, presence_penalty = 0,
       stop = None, calc_usage = True, timeout = 600 \<rparr>"

definition example_litellm :: litellm_module where
  "example_litellm = \<lparr>set_verbose = True, litellm_proxy = None\<rparr>"

definition example_llm :: GitHubCopilotLLM where
  "example_llm =
     \<lparr> self_config = example_config\<lparr>model := Some ''github_copilot/gpt-4o''\<rparr>,
       self_model = ''github_copilot/gpt-4o'',
       self_pricing_plan = ''github_copilot/gpt-4o'',
       self_cost_manager = None,
       litellm = example_litellm\<lparr>set_verbose := False\<rparr>,
       stream_log = [], logger_log = [], cost_updates = [] \<rparr>"

definition content_chunk :: "string \<Rightarrow> Chunk" where
  "content_chunk c =
     \<lparr>choices = Some [\<lparr>delta = Some \<lparr>content = Some c\<rparr>\<rparr>], chunk_usage = None\<rparr>"

text \<open>
  Collaborators for evaluation: a one-entry token table, counters that answer 9 and 1
  (or raise, when \<open>counters_fail\<close>), and a completion call that answers with the given
  result whatever the payload.
\<close>

definition example_env :: "bool \<Rightarrow> litellm_result \<Rightarrow> collaborators" where
  "example_env counters_fail result =
     \<lparr> TOKEN_MAX = [''github_copilot/gpt-4o'' \<mapsto> 128000],
       get_timeout = (\<lambda>cfg t. if t \<noteq> 0 then t else timeout cfg),
       count_message_tokens =
         (\<lambda>messages m. if counters_fail then Inl (KeyError m) else Inr 9),
       count_output_tokens =
         (\<lambda>response m. if counters_fail then Inl (KeyError m) else Inr 1),
       litellm_acompletion = (\<lambda>kw. Inr result) \<rparr>"

definition hello_message :: message where
  "hello_message = [(''role'', ''user''), (''content'', ''Hello, world!'')]"

definition hello_messages :: "message list" where
  "hello_messages = [hello_message]"

definition usage_chunk :: "StreamingChoice list \<Rightarrow> usage \<Rightarrow> Chunk" where
  "usage_chunk cs u = \<lparr>choices = Some cs, chunk_usage = Some u\<rparr>"

definition usage_5_2 :: usage where
  "usage_5_2 = \<lparr>prompt_tokens = 5, completion_tokens = 2, total_tokens = 7\<rparr>"

text \<open>
  The stream of the specification's example: the fragments \<open>Hel\<close> and \<open>lo\<close>, then a
  final chunk that carries the usage record; the final chunk's choices are a parameter.
\<close>

definition hello_stream :: "StreamingChoice list \<Rightarrow> Chunk list" where
  "hello_stream cs = [content_chunk ''Hel'', content_chunk ''lo'', usage_chunk cs usage_5_2]"

text \<open>The client of \<open>tests/metagpt/provider/test_github_api.py\<close>.\<close>

definition example_sydney :: sydney_client where
  "example_sydney =
     \<lparr> aenter = (\<lambda>cookies. None),
       ask = (\<lambda>prompt. Inr (prompt @ '' I am a language model.'', [])),
       ask_stream = (\<lambda>prompt. ([prompt], None)) \<rparr>"

section \<open>Construction: model resolution\<close>

lemma str_replace_double:
  "str_replace ''github_copilot/github_copilot/gpt-4o'' provider_prefix [] = ''gpt-4o''"
  by (simp add: provider_prefix_def startswith_def)

lemma str_replace_single:
  "str_replace ''github_copilot/gpt-4o'' provider_prefix [] = ''gpt-4o''"
  by (simp add: provider_prefix_def startswith_def)

text \<open>
  Claim C3. Constructing the completion adapter resolves an empty (or missing) model
  to \<open>github_copilot/gpt-4o\<close>, the bare name \<open>gpt-4o\<close> to \<open>github_copilot/gpt-4o\<close>,
  leaves \<open>github_copilot/gpt-4o\<close> as it is, and fails with a \<open>ValueError\<close> for
  \<open>not-a-model\<close>. Construction calls nothing of the completion library: the result
  does not depend on any collaborator.
\<close>

theorem C3_model_resolution:
  "map_sum id self_model (GitHubCopilotLLM_init True lib (cfg\<lparr>model := Some []\<rparr>))
     = Inr ''github_copilot/gpt-4o''
   \<and> map_sum id self_model (GitHubCopilotLLM_init True lib (cfg\<lparr>model := None\<rparr>))
     = Inr ''github_copilot/gpt-4o''
   \<and> map_sum id self_model (GitHubCopilotLLM_init True lib (cfg\<lparr>model := Some ''gpt-4o''\<rparr>))
     = Inr ''github_copilot/gpt-4o''
   \<and> map_sum id self_model
        (GitHubCopilotLLM_init True lib (cfg\<lparr>model := Some ''github_copilot/gpt-4o''\<rparr>))
     = Inr ''github_copilot/gpt-4o''
   \<and> GitHubCopilotLLM_init True lib (cfg\<lparr>model := Some ''not-a-model''\<rparr>)
     = Inl (ValueError (''Unsupported GitHub Copilot model: not-a-model. '' @
                        ''Supported models: gpt-4o, gpt-4.1, gpt-5-mini, gpt-5''))"
proof -
  have a: "map_sum id self_model (GitHubCopilotLLM_init True lib (cfg\<lparr>model := Some []\<rparr>))
     = Inr ''github_copilot/gpt-4o''"
    by (simp add: GitHubCopilotLLM_init_def init_client_def resolve_model_def)
  have b: "map_sum id self_model (GitHubCopilotLLM_init True lib (cfg\<lparr>model := None\<rparr>))
     = Inr ''github_copilot/gpt-4o''"
    by (simp add: GitHubCopilotLLM_init_def init_client_def resolve_model_def)
  have c: "map_sum id self_model (GitHubCopilotLLM_init True lib (cfg\<lparr>model := Some ''gpt-4o''\<rparr>))
     = Inr ''github_copilot/gpt-4o''"
    by (simp add: GitHubCopilotLLM_init_def init_client_def resolve_model_def startswith_def
        provider_prefix_def supported_models_def)
  have d: "map_sum id self_model
        (GitHubCopilotLLM_init True lib (cfg\<lparr>model := Some ''github_copilot/gpt-4o''\<rparr>))
     = Inr ''github_copilot/gpt-4o''"
    using str_replace_single
    by (simp add: GitHubCopilotLLM_init_def init_client_def resolve_model_def startswith_def
        supported_models_def Let_def provider_prefix_def)
  have e: "GitHubCopilotLLM_init True lib (cfg\<lparr>model := Some ''not-a-model''\<rparr>)
     = Inl (ValueError (''Unsupported GitHub Copilot model: not-a-model. '' @
                        ''Supported models: gpt-4o, gpt-4.1, gpt-5-mini, gpt-5''))"
    by (simp add: GitHubCopilotLLM_init_def init_client_def resolve_model_def startswith_def
        provider_prefix_def supported_models_def unsupported_model_def)
  from a b c d e show ?thesis by blast
qed

text \<open>
  Claim C10. When the configured model starts with \<open>github_copilot/\<close>, construction
  validates the string with every occurrence of \<open>github_copilot/\<close> removed and keeps
  the string itself as the resolved model id; so \<open>github_copilot/github_copilot/gpt-4o\<close>
  is accepted and resolved to itself, although stripping only the leading prefix (as
  \<open>_normalize_model_name\<close> does) leaves a name that is not supported.
\<close>

theorem C10_prefixed_validation:
  "(startswith m ''github_copilot/'' \<longrightarrow>
      map_sum id self_model (GitHubCopilotLLM_init True lib (cfg\<lparr>model := Some m\<rparr>)) =
        (if str_replace m ''github_copilot/'' [] \<in> set supported_models then Inr m
         else Inl (unsupported_model (str_replace m ''github_copilot/'' []))))
   \<and> map_sum id self_model
        (GitHubCopilotLLM_init True lib
           (cfg\<lparr>model := Some ''github_copilot/github_copilot/gpt-4o''\<rparr>))
       = Inr ''github_copilot/github_copilot/gpt-4o''
   \<and> normalize_model_name ''github_copilot/github_copilot/gpt-4o'' \<notin> set supported_models"
proof -
  have g: "startswith m ''github_copilot/'' \<longrightarrow>
      map_sum id self_model (GitHubCopilotLLM_init True lib (cfg\<lparr>model := Some m\<rparr>)) =
        (if str_replace m ''github_copilot/'' [] \<in> set supported_models then Inr m
         else Inl (unsupported_model (str_replace m ''github_copilot/'' [])))"
    by (auto simp add: GitHubCopilotLLM_init_def init_client_def resolve_model_def Let_def
        provider_prefix_def startswith_def)
  have i: "map_sum id self_model
        (GitHubCopilotLLM_init True lib
           (cfg\<lparr>model := Some ''github_copilot/github_copilot/gpt-4o''\<rparr>))
       = Inr ''github_copilot/github_copilot/gpt-4o''"
    using str_replace_double
    by (simp add: GitHubCopilotLLM_init_def init_client_def resolve_model_def startswith_def
        supported_models_def Let_def provider_prefix_def)
  have n: "normalize_model_name ''github_copilot/github_copilot/gpt-4o'' \<notin> set supported_models"
    by (simp add: normalize_model_name_def startswith_def supported_models_def)
  from g i n show ?thesis by blast
qed

theorem C10_prefixed_validation_witness:
  "startswith ''github_copilot/gpt-5'' ''github_copilot/''
   \<and> str_replace ''github_copilot/gpt-5'' ''github_copilot/'' [] \<in> set supported_models
   \<and> map_sum id self_model
       (GitHubCopilotLLM_init True example_litellm (example_config\<lparr>model := Some ''github_copilot/gpt-5''\<rparr>))
       = Inr ''github_copilot/gpt-5''"
proof -
  have h: "startswith ''github_copilot/gpt-5'' ''github_copilot/''"
    by (simp add: startswith_def)
  have r: "str_replace ''github_copilot/gpt-5'' ''github_copilot/'' [] \<in> set supported_models"
    by (simp add: startswith_def supported_models_def)
  from C10_prefixed_validation [of "''github_copilot/gpt-5''" example_litellm example_config] h r
  show ?thesis by simp
qed

section \<open>Construction and the configuration object\<close>

lemma calc_usage_config: "self_config (snd (calc_usage' env s messages response)) = self_config s"
  by (simp add: calc_usage'_def log_event_def Let_def split: sum.splits)

lemma update_costs_config: "self_config (update_costs s u) = self_config s"
  by (simp add: update_costs_def)

lemma log_event_config: "self_config (log_event lvl msg e s) = self_config s"
  by (simp add: log_event_def)

lemma achat_completion_stream_config:
  "self_config (snd (achat_completion_stream env s messages tmo)) = self_config s"
  by (simp add: achat_completion_stream_def Let_def case_prod_beta log_event_config
      update_costs_config calc_usage_config
      split: sum.splits litellm_result.splits option.splits)

lemma achat_completion_config:
  "self_config (snd (achat_completion env s messages tmo)) = self_config s"
  by (simp add: achat_completion_def Let_def log_event_config update_costs_config
      split: sum.splits litellm_result.splits)

lemma acompletion_text_config:
  "self_config (snd (acompletion_text env s messages stream tmo)) = self_config s"
proof (cases stream)
  case True
  then show ?thesis by (simp add: acompletion_text_def achat_completion_stream_config)
next
  case False
  obtain r s' where r: "achat_completion env s messages (get_timeout env (self_config s) tmo) = (r, s')"
    by (cases "achat_completion env s messages (get_timeout env (self_config s) tmo)")
  with achat_completion_config [of env s messages "get_timeout env (self_config s) tmo"]
  have "self_config s' = self_config s" by simp
  with False r show ?thesis by (cases r) (simp_all add: acompletion_text_def)
qed

lemma init_config:
  "GitHubCopilotLLM_init av lib cfg = Inr self \<Longrightarrow>
     self_config self = cfg\<lparr>model := Some (self_model self)\<rparr>"
  by (auto simp add: GitHubCopilotLLM_init_def init_client_def resolve_model_def Let_def
      split: if_splits option.splits sum.splits)

text \<open>
  Claim C2, as stated, fails: constructing the adapter from the example configuration
  (model \<open>gpt-4o\<close>) leaves the configuration's model field at
  \<open>github_copilot/gpt-4o\<close>.
\<close>

theorem C2_config_modified:
  "model example_config = Some ''gpt-4o''
   \<and> map_sum id (\<lambda>self. model (self_config self))
        (GitHubCopilotLLM_init True example_litellm example_config)
       = Inr (Some ''github_copilot/gpt-4o'')"
  by (simp add: GitHubCopilotLLM_init_def init_client_def resolve_model_def example_config_def
      startswith_def provider_prefix_def supported_models_def)

text \<open>
  Claim C2, amended. Construction may rewrite the model field of the configuration, to
  the resolved model id, and changes no other field; no other operation of the adapter
  (the streaming and non-streaming calls, the text variant, usage calculation, cost
  update) changes any field of the configuration.
\<close>

theorem C2_config_frame:
  "(GitHubCopilotLLM_init av lib cfg = Inr self \<longrightarrow>
      self_config self = cfg\<lparr>model := Some (self_model self)\<rparr>)
   \<and> self_config (snd (achat_completion_stream env s messages tmo)) = self_config s
   \<and> self_config (snd (achat_completion env s messages tmo)) = self_config s
   \<and> self_config (snd (acompletion env s messages tmo)) = self_config s
   \<and> self_config (snd (acompletion_text env s messages stream tmo)) = self_config s
   \<and> self_config (snd (calc_usage' env s messages response)) = self_config s
   \<and> self_config (update_costs s u) = self_config s"
  using init_config [of av lib cfg self]
  by (simp add: achat_completion_stream_config achat_completion_config acompletion_def
      acompletion_text_config calc_usage_config update_costs_config)

theorem C2_config_frame_witness:
  "GitHubCopilotLLM_init True example_litellm example_config = Inr example_llm
   \<and> self_config example_llm = example_config\<lparr>model := Some ''github_copilot/gpt-4o''\<rparr>"
proof -
  have a: "GitHubCopilotLLM_init True example_litellm example_config = Inr example_llm"
    by (simp add: GitHubCopilotLLM_init_def init_client_def resolve_model_def example_config_def
      startswith_def provider_prefix_def supported_models_def example_llm_def example_litellm_def)
  have b: "self_model example_llm = ''github_copilot/gpt-4o''"
    by (simp add: example_llm_def)
  from C2_config_frame [of True example_litellm example_config example_llm] a b
  show ?thesis by simp
qed

section \<open>Payload assembly\<close>

text \<open>
  Claim C6. \<open>_get_max_tokens\<close> returns the table's value for the resolved model id when
  the id is a key of \<open>TOKEN_MAX\<close>, and the configuration's \<open>max_token\<close> otherwise.
\<close>

theorem C6_max_tokens:
  "(TOKEN_MAX env (self_model self) = Some v \<longrightarrow> get_max_tokens env self messages = v)
   \<and> (self_model self \<notin> dom (TOKEN_MAX env) \<longrightarrow>
        get_max_tokens env self messages = max_token (self_config self))"
  by (auto simp add: get_max_tokens_def dom_def split: option.splits)

theorem C6_max_tokens_witness:
  "TOKEN_MAX (example_env False (Stream [] None)) (self_model example_llm) = Some 128000
   \<and> get_max_tokens (example_env False (Stream [] None)) example_llm hello_messages = 128000
   \<and> self_model (example_llm\<lparr>self_model := ''github_copilot/gpt-5''\<rparr>)
        \<notin> dom (TOKEN_MAX (example_env False (Stream [] None)))
   \<and> get_max_tokens (example_env False (Stream [] None))
        (example_llm\<lparr>self_model := ''github_copilot/gpt-5''\<rparr>) hello_messages = 4096"
proof -
  have a: "TOKEN_MAX (example_env False (Stream [] None)) (self_model example_llm) = Some 128000"
    by (simp add: example_env_def example_llm_def)
  have b: "self_model (example_llm\<lparr>self_model := ''github_copilot/gpt-5''\<rparr>)
        \<notin> dom (TOKEN_MAX (example_env False (Stream [] None)))"
    by (simp add: example_env_def)
  have c: "max_token (self_config (example_llm\<lparr>self_model := ''github_copilot/gpt-5''\<rparr>)) = 4096"
    by (simp add: example_llm_def example_config_def)
  from C6_max_tokens [of "example_env False (Stream [] None)" example_llm 128000 hello_messages]
       C6_max_tokens [of "example_env False (Stream [] None)"
                         "example_llm\<lparr>self_model := ''github_copilot/gpt-5''\<rparr>" 0 hello_messages]
       a b c
  show ?thesis by simp
qed

lemma cons_kwargs_merge:
  "cons_kwargs env self messages tmo extra = cons_kwargs env self messages tmo Map.empty ++ extra"
  by (simp add: cons_kwargs_def Let_def)

lemma cons_kwargs_override: "extra k = Some v \<Longrightarrow> cons_kwargs env self messages tmo extra k = Some v"
  by (subst cons_kwargs_merge) (simp add: map_add_def)

lemma cons_kwargs_keep:
  "extra k = None \<Longrightarrow>
     cons_kwargs env self messages tmo extra k = cons_kwargs env self messages tmo Map.empty k"
  by (subst cons_kwargs_merge) (simp add: map_add_def)

lemma assembled_top_p:
  "cons_kwargs env self messages tmo Map.empty ''top_p'' =
     (if top_p (self_config self) = 1 then None else Some (PFloat (top_p (self_config self))))"
  by (simp add: cons_kwargs_def Let_def split: option.splits)

lemma assembled_frequency_penalty:
  "cons_kwargs env self messages tmo Map.empty ''frequency_penalty'' =
     (if frequency_penalty (self_config self) = 0 then None
      else Some (PFloat (frequency_penalty (self_config self))))"
  by (simp add: cons_kwargs_def Let_def split: option.splits)

lemma assembled_presence_penalty:
  "cons_kwargs env self messages tmo Map.empty ''presence_penalty'' =
     (if presence_penalty (self_config self) = 0 then None
      else Some (PFloat (presence_penalty (self_config self))))"
  by (simp add: cons_kwargs_def Let_def split: option.splits)

lemma assembled_stop:
  "cons_kwargs env self messages tmo Map.empty ''stop'' =
     (if truthy (stop (self_config self)) then map_option PStr (stop (self_config self)) else None)"
  by (simp add: cons_kwargs_def Let_def split: option.splits)

lemma assembled_headers:
  "cons_kwargs env self messages tmo Map.empty ''extra_headers'' =
     Some (PHeaders [(''Editor-Version'', ''vscode/1.85.0''),
                     (''Copilot-Integration-Id'', ''vscode-chat'')])"
  by (simp add: cons_kwargs_def Let_def extra_headers_def split: option.splits)

text \<open>
  Claim C5, as stated, fails at two places: an empty stop string is not the absent
  value, yet \<open>stop\<close> is omitted; and an override named \<open>extra_headers\<close> replaces the
  two fixed headers.
\<close>

theorem C5_payload_counterexample:
  "stop (self_config (example_llm\<lparr>self_config := example_config\<lparr>stop := Some []\<rparr>\<rparr>)) \<noteq> None
   \<and> cons_kwargs (example_env False (Stream [] None))
        (example_llm\<lparr>self_config := example_config\<lparr>stop := Some []\<rparr>\<rparr>)
        hello_messages 0 [''extra_headers'' \<mapsto> PHeaders []] ''stop'' = None
   \<and> cons_kwargs (example_env False (Stream [] None))
        (example_llm\<lparr>self_config := example_config\<lparr>stop := Some []\<rparr>\<rparr>)
        hello_messages 0 [''extra_headers'' \<mapsto> PHeaders []] ''extra_headers''
      = Some (PHeaders [])"
  by (simp add: cons_kwargs_def Let_def example_config_def)

text \<open>
  Claim C5, amended. Every key named by the overrides carries the override's value.
  For a key the overrides do not name: \<open>top_p\<close> is omitted exactly when it is 1,
  \<open>frequency_penalty\<close> and \<open>presence_penalty\<close> exactly when they are 0, \<open>stop\<close> exactly
  when it is \<open>None\<close> or empty, each being included with the configured value otherwise;
  and \<open>extra_headers\<close> holds the two fixed editor-integration headers.
\<close>

theorem C5_payload:
  "(extra k = Some v \<longrightarrow> cons_kwargs env self messages tmo extra k = Some v)
   \<and> (extra ''top_p'' = None \<longrightarrow>
        cons_kwargs env self messages tmo extra ''top_p'' =
          (if top_p (self_config self) = 1 then None
           else Some (PFloat (top_p (self_config self)))))
   \<and> (extra ''frequency_penalty'' = None \<longrightarrow>
        cons_kwargs env self messages tmo extra ''frequency_penalty'' =
          (if frequency_penalty (self_config self) = 0 then None
           else Some (PFloat (frequency_penalty (self_config self)))))
   \<and> (extra ''presence_penalty'' = None \<longrightarrow>
        cons_kwargs env self messages tmo extra ''presence_penalty'' =
          (if presence_penalty (self_config self) = 0 then None
           else Some (PFloat (presence_penalty (self_config self)))))
   \<and> (extra ''stop'' = None \<longrightarrow>
        cons_kwargs env self messages tmo extra ''stop'' =
          (if truthy (stop (self_config self)) then map_option PStr (stop (self_config self))
           else None))
   \<and> (extra ''extra_headers'' = None \<longrightarrow>
        cons_kwargs env self messages tmo extra ''extra_headers'' =
          Some (PHeaders [(''Editor-Version'', ''vscode/1.85.0''),
                          (''Copilot-Integration-Id'', ''vscode-chat'')]))"
  using cons_kwargs_override [of extra k v env self messages tmo]
  by (simp add: cons_kwargs_keep assembled_top_p assembled_frequency_penalty
      assembled_presence_penalty assembled_stop assembled_headers)

theorem C5_payload_witness:
  "[''stream'' \<mapsto> PBool True] ''stream'' = Some (PBool True)
   \<and> cons_kwargs (example_env False (Stream [] None))
        (example_llm\<lparr>self_config := example_config\<lparr>top_p := 1 / 2, stop := Some ''END''\<rparr>\<rparr>)
        hello_messages 0 [''stream'' \<mapsto> PBool True] ''stream'' = Some (PBool True)
   \<and> cons_kwargs (example_env False (Stream [] None))
        (example_llm\<lparr>self_config := example_config\<lparr>top_p := 1 / 2, stop := Some ''END''\<rparr>\<rparr>)
        hello_messages 0 [''stream'' \<mapsto> PBool True] ''top_p'' = Some (PFloat (1 / 2))
   \<and> cons_kwargs (example_env False (Stream [] None))
        (example_llm\<lparr>self_config := example_config\<lparr>top_p := 1 / 2, stop := Some ''END''\<rparr>\<rparr>)
        hello_messages 0 [''stream'' \<mapsto> PBool True] ''frequency_penalty'' = None
   \<and> cons_kwargs (example_env False (Stream [] None))
        (example_llm\<lparr>self_config := example_config\<lparr>top_p := 1 / 2, stop := Some ''END''\<rparr>\<rparr>)
        hello_messages 0 [''stream'' \<mapsto> PBool True] ''presence_penalty'' = None
   \<and> cons_kwargs (example_env False (Stream [] None))
        (example_llm\<lparr>self_config := example_config\<lparr>top_p := 1 / 2, stop := Some ''END''\<rparr>\<rparr>)
        hello_messages 0 [''stream'' \<mapsto> PBool True] ''stop'' = Some (PStr ''END'')
   \<and> cons_kwargs (example_env False (Stream [] None))
        (example_llm\<lparr>self_config := example_config\<lparr>top_p := 1 / 2, stop := Some ''END''\<rparr>\<rparr>)
        hello_messages 0 [''stream'' \<mapsto> PBool True] ''extra_headers'' =
          Some (PHeaders [(''Editor-Version'', ''vscode/1.85.0''),
                          (''Copilot-Integration-Id'', ''vscode-chat'')])"
  using C5_payload [of "[''stream'' \<mapsto> PBool True]" "''stream''" "PBool True"
      "example_env False (Stream [] None)"
      "example_llm\<lparr>self_config := example_config\<lparr>top_p := 1 / 2, stop := Some ''END''\<rparr>\<rparr>"
      hello_messages 0]
  by (simp add: example_config_def)

section \<open>The search-assistant adapter\<close>

text \<open>
  Claim C4 fails on the code. With usage calculation on and the cost manager \<open>None\<close>
  (as \<open>__init__\<close> leaves it), the \<open>try\<close> raises \<open>AttributeError\<close>; the handler then
  evaluates \<open>logger\<close>, which \<open>github_api.py\<close> never imports, and the \<open>NameError\<close>
  leaves \<open>_update_costs\<close>.
\<close>

theorem C4_update_costs_raises:
  "GitHubLLM_update_costs update_cost
     (GitHubLLM_init (example_config\<lparr>model := Some ''gpt-4.1''\<rparr>))
     [(''prompt_tokens'', 5), (''completion_tokens'', 2)]
   = Inl (NameError ''logger'')"
  by (simp add: GitHubLLM_update_costs_def GitHubLLM_init_def example_config_def
      github_api_name_def github_api_globals_def)

text \<open>
  Claim C9. For a non-empty message sequence whose final message has a content field,
  once the session is open, the non-streaming \<open>acompletion_text\<close> makes exactly one
  call on the client, \<open>ask\<close> with that content, and returns the text of the pair the
  client answers (or raises what the client raises).
\<close>

theorem C9_forwards_last_content:
  "messages \<noteq> [] \<and> map_of (last messages) ''content'' = Some prompt
     \<and> aenter sydney cookies = None \<longrightarrow>
   GitHubLLM_acompletion_text sydney cookies messages False tmo =
     (map_sum id fst (ask sydney prompt), [Enter cookies, Ask prompt, Exit])"
  by (auto simp add: GitHubLLM_acompletion_text_def last_content_def split: sum.splits)

theorem C9_forwards_last_content_witness:
  "hello_messages \<noteq> [] \<and> map_of (last hello_messages) ''content'' = Some ''Hello, world!''
     \<and> aenter example_sydney None = None
     \<and> GitHubLLM_acompletion_text example_sydney None hello_messages False 600 =
         (Inr ''Hello, world! I am a language model.'',
          [Enter None, Ask ''Hello, world!'', Exit])"
proof -
  have h: "hello_messages \<noteq> [] \<and> map_of (last hello_messages) ''content'' = Some ''Hello, world!''
     \<and> aenter example_sydney None = None"
    by (simp add: hello_messages_def hello_message_def example_sydney_def)
  have a: "map_sum id fst (ask example_sydney ''Hello, world!'')
             = Inr ''Hello, world! I am a language model.''"
    by (simp add: example_sydney_def)
  from C9_forwards_last_content [of hello_messages "''Hello, world!''" example_sydney None 600] h a
  show ?thesis by simp
qed

section \<open>The streaming call\<close>

lemma stream_loop_spec:
  "stream_loop chunks collected u sink =
     (collected @ spec_fragments chunks,
      (if spec_usages chunks = [] then u else Some (last (spec_usages chunks))),
      sink @ spec_fragments chunks)"
proof (induction chunks arbitrary: collected u sink)
  case Nil
  show ?case by (simp add: spec_fragments_def spec_usages_def)
next
  case (Cons chunk rest)
  show ?case
  proof (cases "choices chunk")
    case None
    then show ?thesis
      using Cons.IH [of collected u sink]
      by (simp add: spec_fragments_def spec_usages_def spec_fragment_def has_choices_def)
  next
    case (Some cs)
    show ?thesis
    proof (cases cs)
      case Nil
      with Some show ?thesis
        using Cons.IH [of collected u sink]
        by (simp add: spec_fragments_def spec_usages_def spec_fragment_def has_choices_def)
    next
      case (Cons choice more)
      with Some show ?thesis
        by (simp add: Cons.IH spec_fragments_def spec_usages_def spec_fragment_def
            has_choices_def split: option.splits)
    qed
  qed
qed

lemma calc_usage_fst_stream_log:
  "fst (calc_usage' env (s\<lparr>stream_log := l\<rparr>) messages response)
     = fst (calc_usage' env s messages response)"
  by (simp add: calc_usage'_def Let_def split: sum.splits)

lemma calc_usage_cost_updates:
  "cost_updates (snd (calc_usage' env s messages response)) = cost_updates s"
  by (simp add: calc_usage'_def log_event_def Let_def split: sum.splits)

lemma achat_completion_stream_ok:
  assumes "litellm_acompletion env
             (cons_kwargs env self messages (get_timeout env (self_config self) tmo)
                [''stream'' \<mapsto> PBool True]) = Inr (Stream chunks None)"
  shows "fst (achat_completion_stream env self messages tmo) = Inr (concat (spec_fragments chunks))"
    and "cost_updates (snd (achat_completion_stream env self messages tmo)) =
           cost_updates self @
             [if spec_usages chunks = []
              then fst (calc_usage' env self messages (concat (spec_fragments chunks)))
              else last (spec_usages chunks)]"
  using assms
  by (simp_all add: achat_completion_stream_def Let_def stream_loop_spec case_prod_beta
      update_costs_def calc_usage_fst_stream_log calc_usage_cost_updates)

lemma no_usage_spec_usages:
  "\<forall>c\<in>set chunks. chunk_usage c = None \<Longrightarrow> spec_usages chunks = []"
  by (induction chunks) (simp_all add: spec_usages_def)

lemma calc_usage_failure:
  "count_message_tokens env messages (normalize_model_name (self_pricing_plan s)) = Inl e
   \<or> count_output_tokens env response (normalize_model_name (self_pricing_plan s)) = Inl e
   \<Longrightarrow> fst (calc_usage' env s messages response) = zero_usage"
  by (auto simp add: calc_usage'_def Let_def split: sum.splits)

lemma calc_usage_sum:
  "total_tokens (fst (calc_usage' env s messages response)) =
     prompt_tokens (fst (calc_usage' env s messages response)) +
     completion_tokens (fst (calc_usage' env s messages response))"
  by (simp add: calc_usage'_def Let_def zero_usage_def split: sum.splits)

lemma calc_usage_nonneg:
  assumes "\<forall>ms m n. count_message_tokens env ms m = Inr n \<longrightarrow> 0 \<le> n"
      and "\<forall>r m n. count_output_tokens env r m = Inr n \<longrightarrow> 0 \<le> n"
  shows "0 \<le> prompt_tokens (fst (calc_usage' env s messages response))"
    and "0 \<le> completion_tokens (fst (calc_usage' env s messages response))"
  using assms
  by (auto simp add: calc_usage'_def Let_def zero_usage_def split: sum.splits)

lemma hello_fragments_none:
  "spec_fragments (hello_stream [\<lparr>delta = Some \<lparr>content = None\<rparr>\<rparr>]) = [''Hel'', ''lo'']"
  by (simp add: spec_fragments_def spec_fragment_def hello_stream_def content_chunk_def
      usage_chunk_def)

lemma hello_fragments_empty: "spec_fragments (hello_stream []) = [''Hel'', ''lo'']"
  by (simp add: spec_fragments_def spec_fragment_def hello_stream_def content_chunk_def
      usage_chunk_def)

lemma hello_usages_none:
  "spec_usages (hello_stream [\<lparr>delta = Some \<lparr>content = None\<rparr>\<rparr>]) = [usage_5_2]"
  by (simp add: spec_usages_def has_choices_def hello_stream_def content_chunk_def
      usage_chunk_def)

lemma hello_usages_empty: "spec_usages (hello_stream []) = []"
  by (simp add: spec_usages_def has_choices_def hello_stream_def content_chunk_def
      usage_chunk_def)

lemma example_env_acompletion: "litellm_acompletion (example_env f r) kw = Inr r"
  by (simp add: example_env_def)

lemma example_calc_usage:
  "fst (calc_usage' (example_env False r) example_llm messages response) =
     \<lparr>prompt_tokens = 9, completion_tokens = 1, total_tokens = 10\<rparr>"
  by (simp add: calc_usage'_def Let_def example_env_def example_llm_def example_config_def)

lemma two_chunks_fragments:
  "spec_fragments [content_chunk ''Hel'', content_chunk ''lo''] = [''Hel'', ''lo'']"
  by (simp add: spec_fragments_def spec_fragment_def content_chunk_def)

text \<open>
  Claim C1, as stated, fails: in the stream \<open>Hel\<close>, \<open>lo\<close>, followed by a final chunk
  that carries the usage record of 5 and 2 tokens but has an empty list of choices, the
  text returned is \<open>Hello\<close>, and the usage recorded is the locally computed one, not
  the one the chunk supplies.
\<close>

theorem C1_usage_chunk_without_choices:
  "chunk_usage (last (hello_stream [])) = Some usage_5_2
   \<and> fst (achat_completion_stream (example_env False (Stream (hello_stream []) None))
            example_llm hello_messages 0) = Inr ''Hello''
   \<and> cost_updates (snd (achat_completion_stream
            (example_env False (Stream (hello_stream []) None)) example_llm hello_messages 0))
       = [\<lparr>prompt_tokens = 9, completion_tokens = 1, total_tokens = 10\<rparr>]
   \<and> \<lparr>prompt_tokens = 9, completion_tokens = 1, total_tokens = 10\<rparr> \<noteq> usage_5_2"
proof -
  have a: "chunk_usage (last (hello_stream [])) = Some usage_5_2"
    by (simp add: hello_stream_def usage_chunk_def)
  have c: "cost_updates example_llm = []" by (simp add: example_llm_def)
  have d: "\<lparr>prompt_tokens = 9, completion_tokens = 1, total_tokens = 10\<rparr> \<noteq> usage_5_2"
    by (simp add: usage_5_2_def)
  from achat_completion_stream_ok
         [of "example_env False (Stream (hello_stream []) None)" example_llm hello_messages 0
             "hello_stream []", OF example_env_acompletion]
       a c d
  show ?thesis
    by (simp add: hello_fragments_empty hello_usages_empty example_calc_usage)
qed

text \<open>
  Claim C1, amended. For a stream that is consumed to its end, the returned string is
  the in-order concatenation of the non-empty content fragments of the chunks, and when
  some chunk with a non-empty list of choices carries usage information, the usage
  recorded is the one carried by the last such chunk, instead of a locally computed one.
\<close>

theorem C1_stream_text_and_usage:
  "litellm_acompletion env
     (cons_kwargs env self messages (get_timeout env (self_config self) tmo)
        [''stream'' \<mapsto> PBool True]) = Inr (Stream chunks None) \<longrightarrow>
   fst (achat_completion_stream env self messages tmo) = Inr (concat (spec_fragments chunks))
   \<and> (spec_usages chunks \<noteq> [] \<longrightarrow>
        cost_updates (snd (achat_completion_stream env self messages tmo)) =
          cost_updates self @ [last (spec_usages chunks)])"
  using achat_completion_stream_ok [of env self messages tmo chunks] by simp

theorem C1_stream_text_and_usage_witness:
  "litellm_acompletion
     (example_env False (Stream (hello_stream [\<lparr>delta = Some \<lparr>content = None\<rparr>\<rparr>]) None))
     (cons_kwargs
        (example_env False (Stream (hello_stream [\<lparr>delta = Some \<lparr>content = None\<rparr>\<rparr>]) None))
        example_llm hello_messages
        (get_timeout
           (example_env False (Stream (hello_stream [\<lparr>delta = Some \<lparr>content = None\<rparr>\<rparr>]) None))
           (self_config example_llm) 0)
        [''stream'' \<mapsto> PBool True])
     = Inr (Stream (hello_stream [\<lparr>delta = Some \<lparr>content = None\<rparr>\<rparr>]) None)
   \<and> spec_usages (hello_stream [\<lparr>delta = Some \<lparr>content = None\<rparr>\<rparr>]) \<noteq> []
   \<and> fst (achat_completion_stream
        (example_env False (Stream (hello_stream [\<lparr>delta = Some \<lparr>content = None\<rparr>\<rparr>]) None))
        example_llm hello_messages 0) = Inr ''Hello''
   \<and> cost_updates (snd (achat_completion_stream
        (example_env False (Stream (hello_stream [\<lparr>delta = Some \<lparr>content = None\<rparr>\<rparr>]) None))
        example_llm hello_messages 0)) = [usage_5_2]"
proof -
  have c: "cost_updates example_llm = []" by (simp add: example_llm_def)
  from C1_stream_text_and_usage
         [of "example_env False (Stream (hello_stream [\<lparr>delta = Some \<lparr>content = None\<rparr>\<rparr>]) None)"
             example_llm hello_messages 0 "hello_stream [\<lparr>delta = Some \<lparr>content = None\<rparr>\<rparr>]"]
       c
  show ?thesis
    by (simp add: example_env_acompletion hello_fragments_none hello_usages_none)
qed

text \<open>
  Claim C7. When the stream is consumed to its end and no chunk carries usage
  information, the usage recorded is the one \<open>_calc_usage\<close> computes from the original
  messages and the accumulated (returned) text; and, the token counters returning
  non-negative counts, every usage record \<open>_calc_usage\<close> computes has non-negative
  prompt and completion counts and a total that is their sum.
\<close>

theorem C7_local_usage:
  assumes "litellm_acompletion env
             (cons_kwargs env self messages (get_timeout env (self_config self) tmo)
                [''stream'' \<mapsto> PBool True]) = Inr (Stream chunks None)"
      and "\<forall>c\<in>set chunks. chunk_usage c = None"
      and "\<forall>ms m n. count_message_tokens env ms m = Inr n \<longrightarrow> 0 \<le> n"
      and "\<forall>r m n. count_output_tokens env r m = Inr n \<longrightarrow> 0 \<le> n"
  shows "fst (achat_completion_stream env self messages tmo) = Inr (concat (spec_fragments chunks))
         \<and> cost_updates (snd (achat_completion_stream env self messages tmo)) =
             cost_updates self @
               [fst (calc_usage' env self messages (concat (spec_fragments chunks)))]
         \<and> 0 \<le> prompt_tokens (fst (calc_usage' env s ms response))
         \<and> 0 \<le> completion_tokens (fst (calc_usage' env s ms response))
         \<and> total_tokens (fst (calc_usage' env s ms response)) =
             prompt_tokens (fst (calc_usage' env s ms response)) +
             completion_tokens (fst (calc_usage' env s ms response))"
proof -
  from assms(2) have "spec_usages chunks = []" by (rule no_usage_spec_usages)
  with achat_completion_stream_ok [OF assms(1)]
  have a: "fst (achat_completion_stream env self messages tmo) = Inr (concat (spec_fragments chunks))
         \<and> cost_updates (snd (achat_completion_stream env self messages tmo)) =
             cost_updates self @
               [fst (calc_usage' env self messages (concat (spec_fragments chunks)))]"
    by simp
  from calc_usage_nonneg [OF assms(3,4), of s ms response] calc_usage_sum [of env s ms response]
  have b: "0 \<le> prompt_tokens (fst (calc_usage' env s ms response))
         \<and> 0 \<le> completion_tokens (fst (calc_usage' env s ms response))
         \<and> total_tokens (fst (calc_usage' env s ms response)) =
             prompt_tokens (fst (calc_usage' env s ms response)) +
             completion_tokens (fst (calc_usage' env s ms response))"
    by simp
  from a b show ?thesis by blast
qed

theorem C7_local_usage_witness:
  "litellm_acompletion
     (example_env False (Stream [content_chunk ''Hel'', content_chunk ''lo''] None))
     (cons_kwargs
        (example_env False (Stream [content_chunk ''Hel'', content_chunk ''lo''] None))
        example_llm hello_messages
        (get_timeout
           (example_env False (Stream [content_chunk ''Hel'', content_chunk ''lo''] None))
           (self_config example_llm) 0)
        [''stream'' \<mapsto> PBool True])
     = Inr (Stream [content_chunk ''Hel'', content_chunk ''lo''] None)
   \<and> chunk_usage (content_chunk ''Hel'') = None \<and> chunk_usage (content_chunk ''lo'') = None
   \<and> count_message_tokens
        (example_env False (Stream [content_chunk ''Hel'', content_chunk ''lo''] None))
        hello_messages ''gpt-4o'' = Inr 9
   \<and> count_output_tokens
        (example_env False (Stream [content_chunk ''Hel'', content_chunk ''lo''] None))
        ''Hello'' ''gpt-4o'' = Inr 1
   \<and> fst (achat_completion_stream
        (example_env False (Stream [content_chunk ''Hel'', content_chunk ''lo''] None))
        example_llm hello_messages 0) = Inr ''Hello''
   \<and> cost_updates (snd (achat_completion_stream
        (example_env False (Stream [content_chunk ''Hel'', content_chunk ''lo''] None))
        example_llm hello_messages 0))
       = [\<lparr>prompt_tokens = 9, completion_tokens = 1, total_tokens = 10\<rparr>]"
proof -
  let ?env = "example_env False (Stream [content_chunk ''Hel'', content_chunk ''lo''] None)"
  have h1: "litellm_acompletion ?env
     (cons_kwargs ?env example_llm hello_messages
        (get_timeout ?env (self_config example_llm) 0) [''stream'' \<mapsto> PBool True])
     = Inr (Stream [content_chunk ''Hel'', content_chunk ''lo''] None)"
    by (rule example_env_acompletion)
  have h2: "\<forall>c\<in>set [content_chunk ''Hel'', content_chunk ''lo'']. chunk_usage c = None"
    by (simp add: content_chunk_def)
  have h3: "\<forall>ms m n. count_message_tokens ?env ms m = Inr n \<longrightarrow> 0 \<le> n"
    by (simp add: example_env_def)
  have h4: "\<forall>r m n. count_output_tokens ?env r m = Inr n \<longrightarrow> 0 \<le> n"
    by (simp add: example_env_def)
  have c: "cost_updates example_llm = []" by (simp add: example_llm_def)
  have v: "chunk_usage (content_chunk ''Hel'') = None \<and> chunk_usage (content_chunk ''lo'') = None
           \<and> count_message_tokens ?env hello_messages ''gpt-4o'' = Inr 9
           \<and> count_output_tokens ?env ''Hello'' ''gpt-4o'' = Inr 1"
    by (simp add: content_chunk_def example_env_def)
  from C7_local_usage [OF h1 h2 h3 h4, of example_llm hello_messages "''Hello''"] h1 v c
  show ?thesis
    by (simp add: two_chunks_fragments example_calc_usage)
qed

text \<open>
  Claim C8. When a token counter raises, \<open>_calc_usage\<close> raises nothing and returns the
  all-zero usage record; the streaming call that then falls back to it still returns
  the text it has accumulated, and records the all-zero usage.
\<close>

theorem C8_usage_failure_suppressed:
  "(count_message_tokens env ms (normalize_model_name (self_pricing_plan s)) = Inl e
      \<or> count_output_tokens env response (normalize_model_name (self_pricing_plan s)) = Inl e
    \<longrightarrow> fst (calc_usage' env s ms response) = zero_usage)
   \<and> (litellm_acompletion env
         (cons_kwargs env self messages (get_timeout env (self_config self) tmo)
            [''stream'' \<mapsto> PBool True]) = Inr (Stream chunks None)
       \<and> spec_usages chunks = []
       \<and> (count_message_tokens env messages (normalize_model_name (self_pricing_plan self))
            = Inl e
          \<or> count_output_tokens env (concat (spec_fragments chunks))
              (normalize_model_name (self_pricing_plan self)) = Inl e)
    \<longrightarrow> fst (achat_completion_stream env self messages tmo)
          = Inr (concat (spec_fragments chunks))
        \<and> cost_updates (snd (achat_completion_stream env self messages tmo))
          = cost_updates self @ [zero_usage])"
proof (intro conjI impI)
  assume "count_message_tokens env ms (normalize_model_name (self_pricing_plan s)) = Inl e
      \<or> count_output_tokens env response (normalize_model_name (self_pricing_plan s)) = Inl e"
  then show "fst (calc_usage' env s ms response) = zero_usage"
    by (rule calc_usage_failure)
next
  assume h: "litellm_acompletion env
         (cons_kwargs env self messages (get_timeout env (self_config self) tmo)
            [''stream'' \<mapsto> PBool True]) = Inr (Stream chunks None)
       \<and> spec_usages chunks = []
       \<and> (count_message_tokens env messages (normalize_model_name (self_pricing_plan self))
            = Inl e
          \<or> count_output_tokens env (concat (spec_fragments chunks))
              (normalize_model_name (self_pricing_plan self)) = Inl e)"
  then show "fst (achat_completion_stream env self messages tmo)
          = Inr (concat (spec_fragments chunks))"
    by (simp add: achat_completion_stream_ok(1))
next
  assume h: "litellm_acompletion env
         (cons_kwargs env self messages (get_timeout env (self_config self) tmo)
            [''stream'' \<mapsto> PBool True]) = Inr (Stream chunks None)
       \<and> spec_usages chunks = []
       \<and> (count_message_tokens env messages (normalize_model_name (self_pricing_plan self))
            = Inl e
          \<or> count_output_tokens env (concat (spec_fragments chunks))
              (normalize_model_name (self_pricing_plan self)) = Inl e)"
  then have "fst (calc_usage' env self messages (concat (spec_fragments chunks))) = zero_usage"
    using calc_usage_failure [of env messages self e "concat (spec_fragments chunks)"] by blast
  with h show "cost_updates (snd (achat_completion_stream env self messages tmo))
          = cost_updates self @ [zero_usage]"
    by (simp add: achat_completion_stream_ok(2))
qed

theorem C8_usage_failure_suppressed_witness:
  "litellm_acompletion (example_env True (Stream (hello_stream []) None))
     (cons_kwargs (example_env True (Stream (hello_stream []) None)) example_llm hello_messages
        (get_timeout (example_env True (Stream (hello_stream []) None))
           (self_config example_llm) 0)
        [''stream'' \<mapsto> PBool True])
     = Inr (Stream (hello_stream []) None)
   \<and> spec_usages (hello_stream []) = []
   \<and> count_message_tokens (example_env True (Stream (hello_stream []) None)) hello_messages
        (normalize_model_name (self_pricing_plan example_llm)) = Inl (KeyError ''gpt-4o'')
   \<and> fst (calc_usage' (example_env True (Stream (hello_stream []) None)) example_llm
        hello_messages ''Hello'') = zero_usage
   \<and> fst (achat_completion_stream (example_env True (Stream (hello_stream []) None))
        example_llm hello_messages 0) = Inr ''Hello''
   \<and> cost_updates (snd (achat_completion_stream
        (example_env True (Stream (hello_stream []) None)) example_llm hello_messages 0))
       = [zero_usage]"
proof -
  let ?env = "example_env True (Stream (hello_stream []) None)"
  have h1: "litellm_acompletion ?env
     (cons_kwargs ?env example_llm hello_messages
        (get_timeout ?env (self_config example_llm) 0) [''stream'' \<mapsto> PBool True])
     = Inr (Stream (hello_stream []) None)"
    by (rule example_env_acompletion)
  have h3: "count_message_tokens ?env hello_messages
        (normalize_model_name (self_pricing_plan example_llm)) = Inl (KeyError ''gpt-4o'')"
    by (simp add: example_env_def example_llm_def normalize_model_name_def startswith_def)
  have c: "cost_updates example_llm = []" by (simp add: example_llm_def)
  from C8_usage_failure_suppressed
         [of ?env hello_messages example_llm "KeyError ''gpt-4o''" "''Hello''"
             example_llm hello_messages 0 "hello_stream []"]
       h1 h3 c
  show ?thesis
    by (simp add: hello_usages_empty hello_fragments_empty)
qed

end
